theory Spec2Isabelle
  imports Complex_Main
begin

section \<open>The image analysis service (backend/imageAnalysisService.js)\<close>

text \<open>
  The service asks a list of remote models for a caption, a detailed analysis and a
  classification of an uploaded image, and formats what comes back as an alt text and
  a caption. The embedding follows the current version of the service (the one that
  also exports \<open>textToImageWithAI\<close>).

  The texts that reach the service (response fields, labels, model names) are
  modelled as \<^typ>\<open>string\<close>: each \<^typ>\<open>char\<close> stands for one code unit below 256, and
  \<open>length\<close> counts code units as \<open>String.prototype.length\<close> does. Upper-casing is the
  one operation of the service that makes new code units, and the capitals of two
  code units below 256 lie above 255. The alt text is therefore a list of code unit
  numbers, \<open>codeUnits\<close>.
\<close>

type_synonym codeUnits = "nat list"

definition units :: "string \<Rightarrow> codeUnits" where
  "units s = map of_char s"

subsection \<open>String primitives of the runtime\<close>

text \<open>
  \<open>String.prototype.trim\<close> removes white space and line terminators from both ends.
  Below 256 these are the code units 9 to 13, 32 and 160.
\<close>

definition isWhiteSpace :: "char \<Rightarrow> bool" where
  "isWhiteSpace c \<longleftrightarrow> (of_char c :: nat) \<in> {9, 10, 11, 12, 13, 32, 160}"

definition trim :: "string \<Rightarrow> string" where
  "trim s = rev (dropWhile isWhiteSpace (rev (dropWhile isWhiteSpace s)))"

text \<open>\<open>s.endsWith('.')\<close>.\<close>

definition endsWithPeriod :: "string \<Rightarrow> bool" where
  "endsWithPeriod s \<longleftrightarrow> s \<noteq> [] \<and> last s = CHR ''.''"

text \<open>
  \<open>String.prototype.toUpperCase\<close> on code units below 256. The letters 97 to 122
  (\<open>a\<close> to \<open>z\<close>) and the accented letters 224 to 246 and 248 to 254 move down by 32.
  The sharp s, 223, becomes the two code units of \<open>SS\<close>. The micro sign, 181, becomes
  the Greek capital mu, 924, and the y with diaeresis, 255, becomes its capital, 376.
  Every other code unit stays as it is.
\<close>

definition toUpperChar :: "char \<Rightarrow> codeUnits" where
  "toUpperChar c =
     (let n = (of_char c :: nat) in
      if (97 \<le> n \<and> n \<le> 122) \<or> (224 \<le> n \<and> n \<le> 246) \<or> (248 \<le> n \<and> n \<le> 254)
      then [n - 32]
      else if n = 223 then [83, 83]
      else if n = 181 then [924]
      else if n = 255 then [376]
      else [n])"

definition toUpperCase :: "string \<Rightarrow> codeUnits" where
  "toUpperCase s = concat (map toUpperChar s)"

text \<open>\<open>s.charAt(0)\<close> is the empty string when \<open>s\<close> is empty.\<close>

definition charAt0 :: "string \<Rightarrow> string" where
  "charAt0 s = take 1 s"

subsection \<open>Text post-processing\<close>

text \<open>
  \<^verbatim>\<open>
  function formatAltText(text) {
    let altText = text.trim();
    if (altText.endsWith('.')) {
      altText = altText.slice(0, -1);
    }
    altText = `${altText.charAt(0).toUpperCase()} ${altText.slice(1)}`;
    if (altText.length > 125) {
      altText = altText.substring(0, 122) + '...';
    }
    return altText;
  }
  \<close>
  The template literal puts one space between the capitalised first character and the
  rest of the text.
\<close>

definition stripPeriod :: "string \<Rightarrow> string" where
  "stripPeriod s = (if endsWithPeriod s then butlast s else s)"

definition capitalise :: "string \<Rightarrow> codeUnits" where
  "capitalise s = toUpperCase (charAt0 s) @ units '' '' @ units (drop 1 s)"

definition limitLength :: "codeUnits \<Rightarrow> codeUnits" where
  "limitLength s = (if length s > 125 then take 122 s @ units ''...'' else s)"

definition formatAltText :: "string \<Rightarrow> codeUnits" where
  "formatAltText text = limitLength (capitalise (stripPeriod (trim text)))"


text \<open>
  \<open>detailedText.replace(/^(Caption: |Description: |Image shows: )/, '')\<close>: the
  pattern is anchored at the start, so at most one prefix is removed.
\<close>

definition stripBoilerplate :: "string \<Rightarrow> string" where
  "stripBoilerplate s =
     (if take 9 s = ''Caption: '' then drop 9 s
      else if take 13 s = ''Description: '' then drop 13 s
      else if take 13 s = ''Image shows: '' then drop 13 s
      else s)"

text \<open>\<open>labels.join(', ')\<close>.\<close>

fun joinLabels :: "string list \<Rightarrow> string" where
  "joinLabels [] = []"
| "joinLabels [x] = x"
| "joinLabels (x # y # ys) = x @ '', '' @ joinLabels (y # ys)"

subsection \<open>Provider responses\<close>

text \<open>
  \<open>response.data\<close> is whatever the provider sent, parsed as JSON: the service looks at
  its shape at run time. Objects are association lists read with \<^const>\<open>map_of\<close>.
\<close>

datatype json =
    JNull
  | JBool bool
  | JNum rat
  | JStr string
  | JArr "json list"
  | JObj "(string \<times> json) list"

datatype error = GatewayError | TypeError

text \<open>The truth value JavaScript gives a value in \<open>if\<close>, \<open>&&\<close> and \<open>||\<close>.\<close>

fun truthy :: "json \<Rightarrow> bool" where
  "truthy JNull = False"
| "truthy (JBool b) = b"
| "truthy (JNum q) = (q \<noteq> 0)"
| "truthy (JStr s) = (s \<noteq> [])"
| "truthy (JArr xs) = True"
| "truthy (JObj fs) = True"

text \<open>
  \<open>v.label\<close> and \<open>v.generated_text\<close> on a value that is not \<open>null\<close>: an object gives
  its own field, anything else gives \<open>undefined\<close>, written \<open>None\<close>.
\<close>

fun getField :: "json \<Rightarrow> string \<Rightarrow> json option" where
  "getField (JObj fs) k = map_of fs k"
| "getField v k = None"

text \<open>\<open>a || b\<close>, where \<open>a\<close> may be \<open>undefined\<close>.\<close>

definition orElse :: "json option \<Rightarrow> json \<Rightarrow> json" where
  "orElse a b = (case a of Some v \<Rightarrow> if truthy v then v else b | None \<Rightarrow> b)"

text \<open>
  The shape test of the caption and analysis loops, the same in both:
  \<^verbatim>\<open>
  if (response.data && Array.isArray(response.data) && response.data[0]?.generated_text) {
    results.captionText = response.data[0].generated_text;
    results.captionSuccess = true;
  } else if (response.data && typeof response.data === 'object' && response.data.generated_text) {
    results.captionText = response.data.generated_text;
    results.captionSuccess = true;
  } else if (response.data && typeof response.data === 'string') {
    results.captionText = response.data;
    results.captionSuccess = true;
  } else { console.log(`Unexpected response format ...`) }
  \<close>
  \<open>extractText\<close> gives the value that is stored, or \<open>None\<close> in the last branch. The
  stored value is whatever the field holds: the test is for truth, not for a string.
\<close>

definition firstGeneratedText :: "json list \<Rightarrow> json option" where
  "firstGeneratedText xs = (case xs of [] \<Rightarrow> None | x # _ \<Rightarrow> getField x ''generated_text'')"

definition truthyField :: "json option \<Rightarrow> bool" where
  "truthyField a = (case a of Some v \<Rightarrow> truthy v | None \<Rightarrow> False)"

fun extractText :: "json \<Rightarrow> json option" where
  "extractText (JArr xs) =
     (if truthyField (firstGeneratedText xs) then firstGeneratedText xs else None)"
| "extractText (JObj fs) =
     (if truthyField (map_of fs ''generated_text'') then map_of fs ''generated_text'' else None)"
| "extractText (JStr s) = (if s \<noteq> [] then Some (JStr s) else None)"
| "extractText v = None"

text \<open>
  The classification loop's extraction:
  \<^verbatim>\<open>
  response.data
    .slice(0, 3)
    .map(item => item.label || item.generated_text || item)
    .filter(label => typeof label === 'string')
  \<close>
  Reading a property of \<open>null\<close> throws a TypeError, which ends the \<open>map\<close>.
\<close>

fun labelOf :: "json \<Rightarrow> error + json" where
  "labelOf JNull = Inl TypeError"
| "labelOf item = Inr (orElse (getField item ''label'') (orElse (getField item ''generated_text'') item))"

fun mapLabels :: "json list \<Rightarrow> error + json list" where
  "mapLabels [] = Inr []"
| "mapLabels (x # xs) =
     (case labelOf x of
        Inl e \<Rightarrow> Inl e
      | Inr l \<Rightarrow> (case mapLabels xs of Inl e \<Rightarrow> Inl e | Inr ls \<Rightarrow> Inr (l # ls)))"

fun filterStrings :: "json list \<Rightarrow> string list" where
  "filterStrings [] = []"
| "filterStrings (JStr s # vs) = s # filterStrings vs"
| "filterStrings (v # vs) = filterStrings vs"

definition normalizeLabels :: "json list \<Rightarrow> error + string list" where
  "normalizeLabels xs =
     (case mapLabels (take 3 xs) of Inl e \<Rightarrow> Inl e | Inr ls \<Rightarrow> Inr (filterStrings ls))"

subsection \<open>Caption formatting\<close>

text \<open>
  \<^verbatim>\<open>
  function formatCaption(detailedText, basicCaption, classifications) {
    if (detailedText && detailedText.length > basicCaption.length) {
      let cleanText = detailedText.replace(/^(Caption: |Description: |Image shows: )/, '');
      return cleanText;
    }
    let caption = basicCaption;
    if (classifications && classifications.length > 0) {
      caption += ` The image contains: ${classifications}.`;
    }
    return caption;
  }
  \<close>
  \<open>basicCaption\<close> and \<open>classifications\<close> are strings at the only call site; \<open>detailedText\<close>
  is the stored analysis value, of any shape. For a string or an array \<open>length\<close> is a
  number. For an object it is the field of that name, if any, and the runtime coerces
  the field's value for the comparison; that coercion is a parameter of the model, of type
  \<open>coercion\<close>. A value that is not a string has no \<open>replace\<close> method, and calling it
  throws a TypeError.
\<close>

type_synonym coercion = "json \<Rightarrow> nat \<Rightarrow> error + bool"

fun lengthExceeds :: "coercion \<Rightarrow> json \<Rightarrow> nat \<Rightarrow> error + bool" where
  "lengthExceeds gt (JStr s) n = Inr (length s > n)"
| "lengthExceeds gt (JArr xs) n = Inr (length xs > n)"
| "lengthExceeds gt (JObj fs) n =
     (case map_of fs ''length'' of None \<Rightarrow> Inr False | Some v \<Rightarrow> gt v n)"
| "lengthExceeds gt JNull n = Inl TypeError"
| "lengthExceeds gt v n = Inr False"

fun replaceBoilerplate :: "json \<Rightarrow> error + string" where
  "replaceBoilerplate (JStr s) = Inr (stripBoilerplate s)"
| "replaceBoilerplate v = Inl TypeError"

definition withClassifications :: "string \<Rightarrow> string \<Rightarrow> string" where
  "withClassifications basicCaption classifications =
     (if classifications \<noteq> [] then basicCaption @ '' The image contains: '' @ classifications @ ''.''
      else basicCaption)"

definition formatCaption :: "coercion \<Rightarrow> json \<Rightarrow> string \<Rightarrow> string \<Rightarrow> error + string" where
  "formatCaption gt detailedText basicCaption classifications =
     (if truthy detailedText then
        (case lengthExceeds gt detailedText (length basicCaption) of
           Inl e \<Rightarrow> Inl e
         | Inr True \<Rightarrow> replaceBoilerplate detailedText
         | Inr False \<Rightarrow> Inr (withClassifications basicCaption classifications))
      else Inr (withClassifications basicCaption classifications))"

subsection \<open>The mock result\<close>

record analysisResult =
  altText :: codeUnits
  caption :: string

definition getMockAnalysisResults :: analysisResult where
  "getMockAnalysisResults =
     \<lparr> altText = units ''Example image showing content that would normally be analyzed by AI'',
       caption = ''This is a placeholder caption for demonstration purposes. In production, this would be replaced with AI-generated analysis describing the content, context, and details of the uploaded image.'' \<rparr>"

subsection \<open>The fallback loops\<close>

text \<open>The \<open>models\<close> table of \<open>analyzeImageWithAI\<close>.\<close>

definition models_caption :: "string list" where
  "models_caption =
     [''Salesforce/blip-image-captioning-large'',
      ''microsoft/git-base-coco'',
      ''nlpconnect/vit-gpt2-image-captioning'',
      ''Salesforce/blip-image-captioning-base'']"

definition models_analysis :: "string list" where
  "models_analysis =
     [''Salesforce/blip-image-captioning-large'',
      ''Salesforce/blip-image-captioning-base'',
      ''microsoft/git-base-coco'',
      ''nlpconnect/vit-gpt2-image-captioning'']"

definition models_classification :: "string list" where
  "models_classification =
     [''microsoft/resnet-50'',
      ''facebook/deit-base-distilled-patch16-224'',
      ''google/vit-base-patch16-224'']"

record results =
  captionSuccess :: bool
  analysisSuccess :: bool
  classificationSuccess :: bool
  captionText :: json
  analysisText :: json
  classifications :: "string list"

definition initialResults :: results where
  "initialResults =
     \<lparr> captionSuccess = False, analysisSuccess = False, classificationSuccess = False,
       captionText = JStr [], analysisText = JStr [], classifications = [] \<rparr>"

text \<open>
  Every \<open>axios.post\<close> is a call to the outside. The gateway says what the \<open>n\<close>-th call
  of a request, made to a given model, comes back with: an error (network failure,
  status outside 2xx, timeout) or the response data. The calls made so far are kept
  in a trace, each with the loop that made it, as the service's log lines
  \<open>Trying caption model: ...\<close> do.
\<close>

datatype capability = Caption | Analysis | Classification

type_synonym gateway = "nat \<Rightarrow> string \<Rightarrow> error + json"

type_synonym trace = "(capability \<times> string) list"

text \<open>
  What one attempt yields: the text (or labels) that the loop body stores together
  with its success flag, or \<open>None\<close> when the call throws or the shape is not
  recognised. An attempt on the classification list fails as well when no string
  label is left.
\<close>

definition attemptText :: "error + json \<Rightarrow> json option" where
  "attemptText resp = (case resp of Inl e \<Rightarrow> None | Inr d \<Rightarrow> extractText d)"

definition attemptLabels :: "error + json \<Rightarrow> string list option" where
  "attemptLabels resp =
     (case resp of
        Inr (JArr xs) \<Rightarrow>
          (case normalizeLabels xs of
             Inr ls \<Rightarrow> if ls \<noteq> [] then Some ls else None
           | Inl e \<Rightarrow> None)
      | _ \<Rightarrow> None)"

definition tryCaption :: "gateway \<Rightarrow> string \<Rightarrow> results \<times> trace \<Rightarrow> results \<times> trace" where
  "tryCaption gw model s =
     (let r = fst s; tr = snd s; tr' = tr @ [(Caption, model)] in
      case gw (length tr) model of
        Inl e \<Rightarrow> (r, tr')
      | Inr d \<Rightarrow>
          (case extractText d of
             Some t \<Rightarrow> (r\<lparr>captionText := t, captionSuccess := True\<rparr>, tr')
           | None \<Rightarrow> (r, tr')))"

fun captionLoop :: "gateway \<Rightarrow> string list \<Rightarrow> results \<times> trace \<Rightarrow> results \<times> trace" where
  "captionLoop gw [] s = s"
| "captionLoop gw (model # ms) s =
     (if captionSuccess (fst s) then s else captionLoop gw ms (tryCaption gw model s))"

definition tryAnalysis :: "gateway \<Rightarrow> string \<Rightarrow> results \<times> trace \<Rightarrow> results \<times> trace" where
  "tryAnalysis gw model s =
     (let r = fst s; tr = snd s; tr' = tr @ [(Analysis, model)] in
      case gw (length tr) model of
        Inl e \<Rightarrow> (r, tr')
      | Inr d \<Rightarrow>
          (case extractText d of
             Some t \<Rightarrow> (r\<lparr>analysisText := t, analysisSuccess := True\<rparr>, tr')
           | None \<Rightarrow> (r, tr')))"

fun analysisLoop :: "gateway \<Rightarrow> string list \<Rightarrow> results \<times> trace \<Rightarrow> results \<times> trace" where
  "analysisLoop gw [] s = s"
| "analysisLoop gw (model # ms) s =
     (if analysisSuccess (fst s) then s else analysisLoop gw ms (tryAnalysis gw model s))"

text \<open>
  \<^verbatim>\<open>
  if (response.data && Array.isArray(response.data)) {
    results.classifications = response.data.slice(0, 3).map(...).filter(...);
    if (results.classifications.length > 0) {
      results.classificationSuccess = true;
    }
  }
  \<close>
  The labels are stored even when none is left; a TypeError inside \<open>map\<close> is caught by
  the loop body before anything is stored.
\<close>

definition tryClassification :: "gateway \<Rightarrow> string \<Rightarrow> results \<times> trace \<Rightarrow> results \<times> trace" where
  "tryClassification gw model s =
     (let r = fst s; tr = snd s; tr' = tr @ [(Classification, model)] in
      case gw (length tr) model of
        Inr (JArr xs) \<Rightarrow>
          (case normalizeLabels xs of
             Inl e \<Rightarrow> (r, tr')
           | Inr ls \<Rightarrow>
               (if ls \<noteq> [] then (r\<lparr>classifications := ls, classificationSuccess := True\<rparr>, tr')
                else (r\<lparr>classifications := ls\<rparr>, tr')))
      | _ \<Rightarrow> (r, tr'))"

fun classificationLoop :: "gateway \<Rightarrow> string list \<Rightarrow> results \<times> trace \<Rightarrow> results \<times> trace" where
  "classificationLoop gw [] s = s"
| "classificationLoop gw (model # ms) s =
     (if classificationSuccess (fst s) then s
      else classificationLoop gw ms (tryClassification gw model s))"

text \<open>
  The three loops in the order of the source; the second and third run only when the
  first one has set \<open>captionSuccess\<close>.
\<close>

definition runCapabilities :: "gateway \<Rightarrow> results \<times> trace" where
  "runCapabilities gw =
     (let s1 = captionLoop gw models_caption (initialResults, []);
          s2 = (if captionSuccess (fst s1) then analysisLoop gw models_analysis s1 else s1);
          s3 = (if captionSuccess (fst s2) then classificationLoop gw models_classification s2
                else s2)
      in s3)"

subsection \<open>The entry points\<close>

text \<open>
  What a request sees of its surroundings: the token of the process environment
  (absent or empty counts as not configured), the file system (\<open>readFileSync\<close> throws
  when the file cannot be read, here \<open>None\<close>), the gateway for the analysis calls, the
  one for the image generation call, and the runtime's coercion.
\<close>

record env =
  token :: "string option"
  readFileSync :: "string \<Rightarrow> string option"
  gateway :: gateway
  imageGateway :: "string \<Rightarrow> error + string"
  relationalGt :: coercion

definition tokenConfigured :: "env \<Rightarrow> bool" where
  "tokenConfigured e = (case token e of None \<Rightarrow> False | Some t \<Rightarrow> t \<noteq> [])"

text \<open>
  \<^verbatim>\<open>
  const altText = formatAltText(results.captionText);
  let caption;
  if (results.analysisSuccess && results.analysisText) {
    caption = formatCaption(results.analysisText, results.captionText,
                            results.classifications.join(', '));
  } else if (results.classificationSuccess) {
    caption = `${results.captionText}. This image contains: ${results.classifications.join(', ')}.`;
  } else {
    caption = results.captionText;
  }
  return { altText, caption };
  \<close>
  \<open>formatAltText\<close> calls \<open>text.trim()\<close> first, which throws a TypeError on a caption
  value that is not a string.
\<close>

definition buildResult :: "coercion \<Rightarrow> results \<Rightarrow> error + analysisResult" where
  "buildResult gt r =
     (case captionText r of
        JStr t \<Rightarrow>
          (if analysisSuccess r \<and> truthy (analysisText r) then
             (case formatCaption gt (analysisText r) t (joinLabels (classifications r)) of
                Inl e \<Rightarrow> Inl e
              | Inr c \<Rightarrow> Inr \<lparr> altText = formatAltText t, caption = c \<rparr>)
           else if classificationSuccess r then
             Inr \<lparr> altText = formatAltText t,
                   caption = t @ ''. This image contains: '' @ joinLabels (classifications r) @ ''.'' \<rparr>
           else Inr \<lparr> altText = formatAltText t, caption = t \<rparr>)
      | _ \<Rightarrow> Inl TypeError)"

text \<open>
  \<open>analyzeImageWithAI\<close>: the whole body is inside \<open>try { ... } catch (error) { return
  getMockAnalysisResults(); }\<close>, so every exception ends in the mock result. The value
  is the result together with the trace of the provider calls made.
\<close>

definition analyzeImageWithAI :: "env \<Rightarrow> string \<Rightarrow> analysisResult \<times> trace" where
  "analyzeImageWithAI e imagePath =
     (if \<not> tokenConfigured e then (getMockAnalysisResults, [])
      else
        (case readFileSync e imagePath of
           None \<Rightarrow> (getMockAnalysisResults, [])
         | Some imageBuffer \<Rightarrow>
             (let s = runCapabilities (gateway e) in
              if \<not> captionSuccess (fst s) then (getMockAnalysisResults, snd s)
              else
                (case buildResult (relationalGt e) (fst s) of
                   Inl err \<Rightarrow> (getMockAnalysisResults, snd s)
                 | Inr res \<Rightarrow> (res, snd s)))))"

text \<open>
  \<^verbatim>\<open>
  export async function textToImageWithAI(prompt) {
    try {
      const huggingfaceToken = process.env.HUGGINGFACE_API_TOKEN;
      if (!huggingfaceToken) {
        return getMockAnalysisResults();
      }
      try {
        const response = await axios.post(..., { inputs: prompt, ... }, ...);
        return response.data;
      } catch (error) {
        console.log(`model failed:`, error.message);
        throw error;
      }
    } catch (error) {
      console.error('Error in analyzeImageWithAI:', error);
      return getMockAnalysisResults();
    }
  }
  \<close>
  The function returns image data or the mock object; \<open>Inl\<close> is an exception that
  reaches the caller.
\<close>

datatype generated = ImageData string | MockObject analysisResult

definition tryCatch :: "error + 'a \<Rightarrow> (error \<Rightarrow> error + 'a) \<Rightarrow> error + 'a" where
  "tryCatch body handler = (case body of Inl e \<Rightarrow> handler e | Inr v \<Rightarrow> Inr v)"

definition textToImageWithAI :: "env \<Rightarrow> string \<Rightarrow> error + generated" where
  "textToImageWithAI e prompt =
     tryCatch
       (if \<not> tokenConfigured e then Inr (MockObject getMockAnalysisResults)
        else
          tryCatch
            (case imageGateway e prompt of Inl err \<Rightarrow> Inl err | Inr d \<Rightarrow> Inr (ImageData d))
            (\<lambda>error. Inl error))
       (\<lambda>error. Inr (MockObject getMockAnalysisResults))"


subsection \<open>Scripted environments\<close>

text \<open>
  A scripted gateway answers the \<open>n\<close>-th call of a request with the \<open>n\<close>-th entry of a
  script and fails once the script is used up.
\<close>

definition scripted :: "(error + json) list \<Rightarrow> gateway" where
  "scripted script n model = (if n < length script then script ! n else Inl GatewayError)"

text \<open>The examples never reach the runtime's coercion; they run with this one.\<close>

definition exampleGt :: coercion where
  "exampleGt v n = Inr False"

definition scriptedEnv :: "(error + json) list \<Rightarrow> env" where
  "scriptedEnv script =
     \<lparr> token = Some ''hf_token'',
       readFileSync = (\<lambda>path. Some ''image bytes''),
       gateway = scripted script,
       imageGateway = (\<lambda>prompt. Inl GatewayError),
       relationalGt = exampleGt \<rparr>"

text \<open>No provider can be reached.\<close>

definition offlineEnv :: env where
  "offlineEnv = scriptedEnv []"

text \<open>
  The first caption model answers \<open>"a"\<close> and the first analysis model answers
  \<open>"Caption: "\<close>; the classification models send nothing usable.
\<close>

definition prefixOnlyEnv :: env where
  "prefixOnlyEnv = scriptedEnv [Inr (JStr ''a''), Inr (JStr ''Caption: '')]"

text \<open>
  The first caption model answers \<open>"a dog"\<close>, the four analysis models fail, and the
  first classification model sends two labelled entries.
\<close>

definition labelsOnlyEnv :: env where
  "labelsOnlyEnv =
     scriptedEnv
       [Inr (JArr [JObj [(''generated_text'', JStr ''a dog'')]]),
        Inl GatewayError, Inl GatewayError, Inl GatewayError, Inl GatewayError,
        Inr (JArr [JObj [(''label'', JStr ''animal''), (''score'', JNum (9 / 10))],
                   JObj [(''label'', JStr ''grass''), (''score'', JNum (1 / 20))]])]"

text \<open>A caption and a detailed analysis that is longer than the caption.\<close>

definition detailedEnv :: env where
  "detailedEnv =
     scriptedEnv
       [Inr (JStr ''a dog''),
        Inr (JObj [(''generated_text'', JStr ''Caption: a dog running on grass'')])]"

text \<open>
  The first caption model answers with a number where the text is expected; the
  analysis models fail and the first classification model sends a label.
\<close>

definition numericCaptionEnv :: env where
  "numericCaptionEnv =
     scriptedEnv
       [Inr (JArr [JObj [(''generated_text'', JNum 5)]]),
        Inl GatewayError, Inl GatewayError, Inl GatewayError, Inl GatewayError,
        Inr (JArr [JObj [(''label'', JStr ''animal'')]])]"

subsection \<open>The classification rule in the specification's words\<close>

text \<open>
  The specification describes the label of an entry as its \<open>label\<close> field, else its
  \<open>generated_text\<close> field, else the entry itself; a field that is absent or holds an
  empty, zero, false or null value does not count. Results that are not strings are
  discarded. \<open>spec_firstThreeSurvivors\<close> is the rule as the specification orders it:
  discard first, then keep three.
\<close>

definition spec_presentField :: "string \<Rightarrow> json \<Rightarrow> json option" where
  "spec_presentField k entry =
     (case entry of
        JObj fs \<Rightarrow>
          (case map_of fs k of Some v \<Rightarrow> if truthy v then Some v else None | None \<Rightarrow> None)
      | _ \<Rightarrow> None)"

definition spec_entryLabel :: "json \<Rightarrow> json" where
  "spec_entryLabel entry =
     (case spec_presentField ''label'' entry of
        Some v \<Rightarrow> v
      | None \<Rightarrow>
          (case spec_presentField ''generated_text'' entry of Some v \<Rightarrow> v | None \<Rightarrow> entry))"

definition spec_survivors :: "json list \<Rightarrow> string list" where
  "spec_survivors entries =
     concat (map (\<lambda>entry. case spec_entryLabel entry of JStr s \<Rightarrow> [s] | _ \<Rightarrow> []) entries)"

definition spec_firstThreeSurvivors :: "json list \<Rightarrow> string list" where
  "spec_firstThreeSurvivors entries = take 3 (spec_survivors entries)"

section \<open>Properties\<close>

subsection \<open>Evaluation helpers\<close>

lemma toUpperChar_length: "length (toUpperChar c) = 1 \<or> length (toUpperChar c) = 2"
  by (simp add: toUpperChar_def Let_def)

lemma toUpperCase_single:
  "s \<noteq> [] \<Longrightarrow> 1 \<le> length (toUpperCase (charAt0 s)) \<and> length (toUpperCase (charAt0 s)) \<le> 2"
  using toUpperChar_length [of "hd s"]
  by (cases s) (auto simp: toUpperCase_def charAt0_def)

text \<open>
  C2 (the code departs from the claim). \<open>formatAltText("a cat.")\<close> is claimed to be
  \<open>"A cat"\<close> and \<open>formatAltText("")\<close> to be \<open>""\<close>. The service returns \<open>"A  cat"\<close>, with
  two spaces, and \<open>" "\<close>: the template literal that capitalises the first character
  inserts a space after it.
\<close>

theorem formatAltText_stray_space:
  "formatAltText ''a cat.'' = units ''A  cat'' \<and> formatAltText '''' = units '' ''
   \<and> formatAltText ''a cat.'' \<noteq> units ''A cat'' \<and> formatAltText '''' \<noteq> units ''''"
  by code_simp

subsection \<open>The fallback loops\<close>

lemma captionLoop_done: "captionSuccess (fst s) \<Longrightarrow> captionLoop gw ms s = s"
  by (cases ms) auto

lemma tryCaption_unusable:
  "attemptText (gw (length (snd s)) m) = None \<Longrightarrow>
   tryCaption gw m s = (fst s, snd s @ [(Caption, m)])"
  by (auto simp: tryCaption_def attemptText_def Let_def split: sum.splits option.splits)

lemma tryCaption_usable:
  "attemptText (gw (length (snd s)) m) = Some v \<Longrightarrow>
   tryCaption gw m s = ((fst s)\<lparr>captionText := v, captionSuccess := True\<rparr>, snd s @ [(Caption, m)])"
  by (auto simp: tryCaption_def attemptText_def Let_def split: sum.splits option.splits)

lemma captionLoop_first_usable:
  assumes "\<not> captionSuccess (fst s)" and "k < length ms"
    and "\<forall>i<k. attemptText (gw (length (snd s) + i) (ms ! i)) = None"
    and "attemptText (gw (length (snd s) + k) (ms ! k)) = Some v"
  shows "captionLoop gw ms s =
           ((fst s)\<lparr>captionText := v, captionSuccess := True\<rparr>,
            snd s @ map (Pair Caption) (take (Suc k) ms))"
  using assms
proof (induction ms arbitrary: s k)
  case Nil
  then show ?case by simp
next
  case (Cons m ms)
  show ?case
  proof (cases k)
    case 0
    with Cons.prems have ok: "attemptText (gw (length (snd s)) m) = Some v" by simp
    show ?thesis
      using Cons.prems(1) 0 by (simp add: tryCaption_usable [where gw = gw and s = s and m = m, OF ok] captionLoop_done)
  next
    case (Suc j)
    from Cons.prems(3) Suc have bad: "attemptText (gw (length (snd s)) m) = None"
      by (metis add.right_neutral nth_Cons_0 zero_less_Suc)
    let ?s = "(fst s, snd s @ [(Caption, m)])"
    have step: "tryCaption gw m s = ?s" using bad by (rule tryCaption_unusable [where gw = gw and s = s and m = m])
    have a: "\<not> captionSuccess (fst ?s)" using Cons.prems(1) by simp
    have b: "j < length ms" using Cons.prems(2) Suc by simp
    have c: "\<forall>i<j. attemptText (gw (length (snd ?s) + i) (ms ! i)) = None"
    proof (intro allI impI)
      fix i assume "i < j"
      then have "Suc i < k" using Suc by simp
      with Cons.prems(3) have "attemptText (gw (length (snd s) + Suc i) ((m # ms) ! Suc i)) = None"
        by blast
      then show "attemptText (gw (length (snd ?s) + i) (ms ! i)) = None" by simp
    qed
    have d: "attemptText (gw (length (snd ?s) + j) (ms ! j)) = Some v"
      using Cons.prems(4) Suc by simp
    from Cons.IH [OF a b c d] show ?thesis
      using Cons.prems(1) Suc step by simp
  qed
qed

lemma captionLoop_all_unusable:
  assumes "\<not> captionSuccess (fst s)"
    and "\<forall>i<length ms. attemptText (gw (length (snd s) + i) (ms ! i)) = None"
  shows "captionLoop gw ms s = (fst s, snd s @ map (Pair Caption) ms)"
  using assms
proof (induction ms arbitrary: s)
  case Nil
  then show ?case by simp
next
  case (Cons m ms)
  from Cons.prems(2) have bad: "attemptText (gw (length (snd s)) m) = None"
    by (metis add.right_neutral length_greater_0_conv list.distinct(1) nth_Cons_0)
  let ?s = "(fst s, snd s @ [(Caption, m)])"
  have step: "tryCaption gw m s = ?s" using bad by (rule tryCaption_unusable [where gw = gw and s = s and m = m])
  have a: "\<not> captionSuccess (fst ?s)" using Cons.prems(1) by simp
  have c: "\<forall>i<length ms. attemptText (gw (length (snd ?s) + i) (ms ! i)) = None"
  proof (intro allI impI)
    fix i assume "i < length ms"
    then have "Suc i < length (m # ms)" by simp
    with Cons.prems(2) have "attemptText (gw (length (snd s) + Suc i) ((m # ms) ! Suc i)) = None"
      by blast
    then show "attemptText (gw (length (snd ?s) + i) (ms ! i)) = None" by simp
  qed
  from Cons.IH [OF a c] show ?case using Cons.prems(1) step by simp
qed

lemma analysisLoop_done: "analysisSuccess (fst s) \<Longrightarrow> analysisLoop gw ms s = s"
  by (cases ms) auto

lemma tryAnalysis_unusable:
  "attemptText (gw (length (snd s)) m) = None \<Longrightarrow>
   tryAnalysis gw m s = (fst s, snd s @ [(Analysis, m)])"
  by (auto simp: tryAnalysis_def attemptText_def Let_def split: sum.splits option.splits)

lemma tryAnalysis_usable:
  "attemptText (gw (length (snd s)) m) = Some v \<Longrightarrow>
   tryAnalysis gw m s = ((fst s)\<lparr>analysisText := v, analysisSuccess := True\<rparr>, snd s @ [(Analysis, m)])"
  by (auto simp: tryAnalysis_def attemptText_def Let_def split: sum.splits option.splits)

lemma analysisLoop_first_usable:
  assumes "\<not> analysisSuccess (fst s)" and "k < length ms"
    and "\<forall>i<k. attemptText (gw (length (snd s) + i) (ms ! i)) = None"
    and "attemptText (gw (length (snd s) + k) (ms ! k)) = Some v"
  shows "analysisLoop gw ms s =
           ((fst s)\<lparr>analysisText := v, analysisSuccess := True\<rparr>,
            snd s @ map (Pair Analysis) (take (Suc k) ms))"
  using assms
proof (induction ms arbitrary: s k)
  case Nil
  then show ?case by simp
next
  case (Cons m ms)
  show ?case
  proof (cases k)
    case 0
    with Cons.prems have ok: "attemptText (gw (length (snd s)) m) = Some v" by simp
    show ?thesis
      using Cons.prems(1) 0 by (simp add: tryAnalysis_usable [where gw = gw and s = s and m = m, OF ok] analysisLoop_done)
  next
    case (Suc j)
    from Cons.prems(3) Suc have bad: "attemptText (gw (length (snd s)) m) = None"
      by (metis add.right_neutral nth_Cons_0 zero_less_Suc)
    let ?s = "(fst s, snd s @ [(Analysis, m)])"
    have step: "tryAnalysis gw m s = ?s" using bad by (rule tryAnalysis_unusable [where gw = gw and s = s and m = m])
    have a: "\<not> analysisSuccess (fst ?s)" using Cons.prems(1) by simp
    have b: "j < length ms" using Cons.prems(2) Suc by simp
    have c: "\<forall>i<j. attemptText (gw (length (snd ?s) + i) (ms ! i)) = None"
    proof (intro allI impI)
      fix i assume "i < j"
      then have "Suc i < k" using Suc by simp
      with Cons.prems(3) have "attemptText (gw (length (snd s) + Suc i) ((m # ms) ! Suc i)) = None"
        by blast
      then show "attemptText (gw (length (snd ?s) + i) (ms ! i)) = None" by simp
    qed
    have d: "attemptText (gw (length (snd ?s) + j) (ms ! j)) = Some v"
      using Cons.prems(4) Suc by simp
    from Cons.IH [OF a b c d] show ?thesis
      using Cons.prems(1) Suc step by simp
  qed
qed


lemma classificationLoop_done:
  "classificationSuccess (fst s) \<Longrightarrow> classificationLoop gw ms s = s"
  by (cases ms) auto

lemma tryClassification_unusable:
  "attemptLabels (gw (length (snd s)) m) = None \<Longrightarrow>
   classificationSuccess (fst (tryClassification gw m s)) = classificationSuccess (fst s)
   \<and> snd (tryClassification gw m s) = snd s @ [(Classification, m)]"
  by (auto simp: tryClassification_def attemptLabels_def Let_def
      split: sum.splits json.splits if_splits)

lemma tryClassification_usable:
  "attemptLabels (gw (length (snd s)) m) = Some ls \<Longrightarrow>
   tryClassification gw m s =
     ((fst s)\<lparr>classifications := ls, classificationSuccess := True\<rparr>,
      snd s @ [(Classification, m)])"
  by (auto simp: tryClassification_def attemptLabels_def Let_def
      split: sum.splits json.splits if_splits)

lemma classificationLoop_first_usable:
  assumes "\<not> classificationSuccess (fst s)" and "k < length ms"
    and "\<forall>i<k. attemptLabels (gw (length (snd s) + i) (ms ! i)) = None"
    and "attemptLabels (gw (length (snd s) + k) (ms ! k)) = Some ls"
  shows "classificationSuccess (fst (classificationLoop gw ms s))
         \<and> classifications (fst (classificationLoop gw ms s)) = ls
         \<and> snd (classificationLoop gw ms s) =
             snd s @ map (Pair Classification) (take (Suc k) ms)"
  using assms
proof (induction ms arbitrary: s k)
  case Nil
  then show ?case by simp
next
  case (Cons m ms)
  show ?case
  proof (cases k)
    case 0
    with Cons.prems have ok: "attemptLabels (gw (length (snd s)) m) = Some ls" by simp
    show ?thesis
      using Cons.prems(1) 0
      by (simp add: tryClassification_usable [where gw = gw and s = s and m = m, OF ok]
          classificationLoop_done)
  next
    case (Suc j)
    from Cons.prems(3) Suc have bad: "attemptLabels (gw (length (snd s)) m) = None"
      by (metis add.right_neutral nth_Cons_0 zero_less_Suc)
    let ?s = "tryClassification gw m s"
    have step: "classificationSuccess (fst ?s) = classificationSuccess (fst s)"
      "snd ?s = snd s @ [(Classification, m)]"
      using bad tryClassification_unusable [where gw = gw and s = s and m = m] by simp_all
    have a: "\<not> classificationSuccess (fst ?s)" using Cons.prems(1) step by simp
    have b: "j < length ms" using Cons.prems(2) Suc by simp
    have c: "\<forall>i<j. attemptLabels (gw (length (snd ?s) + i) (ms ! i)) = None"
    proof (intro allI impI)
      fix i assume "i < j"
      then have "Suc i < k" using Suc by simp
      with Cons.prems(3)
      have "attemptLabels (gw (length (snd s) + Suc i) ((m # ms) ! Suc i)) = None"
        by blast
      then show "attemptLabels (gw (length (snd ?s) + i) (ms ! i)) = None"
        by (simp add: step)
    qed
    have d: "attemptLabels (gw (length (snd ?s) + j) (ms ! j)) = Some ls"
      using Cons.prems(4) Suc by (simp add: step)
    from Cons.IH [OF a b c d] show ?thesis
      using Cons.prems(1) Suc step by simp
  qed
qed

text \<open>
  C3. In each of the three loops (caption, analysis, classification), for every list
  of models and every gateway: when the attempt at position \<open>k\<close> is the first that
  yields a usable result, the loop records success with that result, and the calls it
  adds to the trace are exactly those to the models at positions \<open>0\<close> to \<open>k\<close>, in
  order. The models after position \<open>k\<close> are not called.
\<close>

theorem first_usable_provider_short_circuits:
  assumes "k < length ms"
  shows "(\<not> captionSuccess (fst s)
          \<and> (\<forall>i<k. attemptText (gw (length (snd s) + i) (ms ! i)) = None)
          \<and> attemptText (gw (length (snd s) + k) (ms ! k)) = Some v
          \<longrightarrow> captionLoop gw ms s =
                ((fst s)\<lparr>captionText := v, captionSuccess := True\<rparr>,
                 snd s @ map (Pair Caption) (take (Suc k) ms)))
       \<and> (\<not> analysisSuccess (fst s)
          \<and> (\<forall>i<k. attemptText (gw (length (snd s) + i) (ms ! i)) = None)
          \<and> attemptText (gw (length (snd s) + k) (ms ! k)) = Some v
          \<longrightarrow> analysisLoop gw ms s =
                ((fst s)\<lparr>analysisText := v, analysisSuccess := True\<rparr>,
                 snd s @ map (Pair Analysis) (take (Suc k) ms)))
       \<and> (\<not> classificationSuccess (fst s)
          \<and> (\<forall>i<k. attemptLabels (gw (length (snd s) + i) (ms ! i)) = None)
          \<and> attemptLabels (gw (length (snd s) + k) (ms ! k)) = Some ls
          \<longrightarrow> classificationSuccess (fst (classificationLoop gw ms s))
              \<and> classifications (fst (classificationLoop gw ms s)) = ls
              \<and> snd (classificationLoop gw ms s) =
                  snd s @ map (Pair Classification) (take (Suc k) ms))"
proof (intro conjI impI)
  assume "\<not> captionSuccess (fst s)
          \<and> (\<forall>i<k. attemptText (gw (length (snd s) + i) (ms ! i)) = None)
          \<and> attemptText (gw (length (snd s) + k) (ms ! k)) = Some v"
  then show "captionLoop gw ms s =
                ((fst s)\<lparr>captionText := v, captionSuccess := True\<rparr>,
                 snd s @ map (Pair Caption) (take (Suc k) ms))"
    using assms captionLoop_first_usable by blast
next
  assume "\<not> analysisSuccess (fst s)
          \<and> (\<forall>i<k. attemptText (gw (length (snd s) + i) (ms ! i)) = None)
          \<and> attemptText (gw (length (snd s) + k) (ms ! k)) = Some v"
  then show "analysisLoop gw ms s =
                ((fst s)\<lparr>analysisText := v, analysisSuccess := True\<rparr>,
                 snd s @ map (Pair Analysis) (take (Suc k) ms))"
    using assms analysisLoop_first_usable by blast
next
  assume h: "\<not> classificationSuccess (fst s)
          \<and> (\<forall>i<k. attemptLabels (gw (length (snd s) + i) (ms ! i)) = None)
          \<and> attemptLabels (gw (length (snd s) + k) (ms ! k)) = Some ls"
  note r = classificationLoop_first_usable [where gw = gw and s = s and ms = ms and k = k and ls = ls]
  from h assms r show "classificationSuccess (fst (classificationLoop gw ms s))" by blast
  from h assms r show "classifications (fst (classificationLoop gw ms s)) = ls" by blast
  from h assms r show "snd (classificationLoop gw ms s) =
                  snd s @ map (Pair Classification) (take (Suc k) ms)" by blast
qed

theorem first_usable_provider_short_circuits_witness:
  "captionLoop
     (scripted [Inl GatewayError, Inr (JArr [JObj [(''generated_text'', JStr ''a dog'')]])])
     [''m0'', ''m1'', ''m2''] (initialResults, []) =
     (initialResults\<lparr>captionText := JStr ''a dog'', captionSuccess := True\<rparr>,
      [(Caption, ''m0''), (Caption, ''m1'')])
   \<and> analysisLoop
     (scripted [Inl GatewayError, Inr (JArr [JObj [(''generated_text'', JStr ''a dog'')]])])
     [''m0'', ''m1'', ''m2''] (initialResults, []) =
     (initialResults\<lparr>analysisText := JStr ''a dog'', analysisSuccess := True\<rparr>,
      [(Analysis, ''m0''), (Analysis, ''m1'')])
   \<and> classifications (fst (classificationLoop
     (scripted [Inl GatewayError, Inr (JArr [JObj [(''generated_text'', JStr ''a dog'')]])])
     [''m0'', ''m1'', ''m2''] (initialResults, []))) = [''a dog'']
   \<and> snd (classificationLoop
     (scripted [Inl GatewayError, Inr (JArr [JObj [(''generated_text'', JStr ''a dog'')]])])
     [''m0'', ''m1'', ''m2''] (initialResults, [])) =
     [(Classification, ''m0''), (Classification, ''m1'')]"
proof -
  let ?gw = "scripted [Inl GatewayError, Inr (JArr [JObj [(''generated_text'', JStr ''a dog'')]])]"
  let ?ms = "[''m0'', ''m1'', ''m2'']"
  let ?s = "(initialResults, []) :: results \<times> trace"
  have k: "(1::nat) < length ?ms" by simp
  have fresh: "\<not> captionSuccess (fst ?s)" "\<not> analysisSuccess (fst ?s)"
    "\<not> classificationSuccess (fst ?s)"
    by (simp_all add: initialResults_def)
  have t0: "\<forall>i<1::nat. attemptText (?gw (length (snd ?s) + i) (?ms ! i)) = None"
    by (simp add: scripted_def attemptText_def)
  have t1: "attemptText (?gw (length (snd ?s) + 1) (?ms ! 1)) = Some (JStr ''a dog'')"
    by (simp add: scripted_def attemptText_def firstGeneratedText_def truthyField_def)
  have l0: "\<forall>i<1::nat. attemptLabels (?gw (length (snd ?s) + i) (?ms ! i)) = None"
    by (simp add: scripted_def attemptLabels_def)
  have l1: "attemptLabels (?gw (length (snd ?s) + 1) (?ms ! 1)) = Some [''a dog'']"
    by (simp add: scripted_def attemptLabels_def normalizeLabels_def orElse_def)
  from first_usable_provider_short_circuits
         [where k = 1 and ms = ?ms and s = ?s and gw = ?gw and v = "JStr ''a dog''"
            and ls = "[''a dog'']", OF k]
       fresh t0 t1 l0 l1
  show ?thesis by simp
qed

lemma runCapabilities_without_caption:
  assumes "\<forall>i<length models_caption. attemptText (gw i (models_caption ! i)) = None"
  shows "runCapabilities gw = (initialResults, map (Pair Caption) models_caption)"
proof -
  have "captionLoop gw models_caption (initialResults, []) =
          (initialResults, map (Pair Caption) models_caption)"
    using captionLoop_all_unusable [where s = "(initialResults, [])" and gw = gw
        and ms = models_caption] assms
    by (simp add: initialResults_def)
  then show ?thesis by (simp add: runCapabilities_def Let_def initialResults_def)
qed

text \<open>
  C4. When every attempt on the caption list fails or is unusable, the result of the
  analysis is the mock result, and every provider call of the run was made by the
  caption loop: no model of the analysis or classification lists is called.
\<close>

theorem caption_failure_gives_mock_and_skips_other_lists:
  assumes "\<forall>i<length models_caption. attemptText (gateway e i (models_caption ! i)) = None"
  shows "fst (analyzeImageWithAI e imagePath) = getMockAnalysisResults
         \<and> (\<forall>call \<in> set (snd (analyzeImageWithAI e imagePath)). fst call = Caption)"
  using runCapabilities_without_caption [where gw = "gateway e", OF assms]
  by (auto simp: analyzeImageWithAI_def Let_def initialResults_def split: option.splits)

theorem caption_failure_gives_mock_and_skips_other_lists_witness:
  "attemptText (gateway offlineEnv 0 (models_caption ! 0)) = None
   \<and> attemptText (gateway offlineEnv 3 (models_caption ! 3)) = None
   \<and> fst (analyzeImageWithAI offlineEnv ''cat.png'') = getMockAnalysisResults
   \<and> snd (analyzeImageWithAI offlineEnv ''cat.png'') = map (Pair Caption) models_caption"
proof -
  have h: "\<forall>i<length models_caption.
             attemptText (gateway offlineEnv i (models_caption ! i)) = None"
    by (simp add: offlineEnv_def scriptedEnv_def scripted_def attemptText_def)
  have len: "length models_caption = 4" by (simp add: models_caption_def)
  have calls: "snd (analyzeImageWithAI offlineEnv ''cat.png'') = map (Pair Caption) models_caption"
    by code_simp
  from caption_failure_gives_mock_and_skips_other_lists [OF h, of "''cat.png''"] h len calls
  show ?thesis by simp
qed

subsection \<open>Image generation\<close>

lemma textToImageWithAI_failure:
  "tokenConfigured e \<Longrightarrow> imageGateway e prompt = Inl err \<Longrightarrow>
   textToImageWithAI e prompt = Inr (MockObject getMockAnalysisResults)"
  by (simp add: textToImageWithAI_def tryCatch_def)

text \<open>
  C1 (the code departs from the claim). With a token configured and a generation call
  that fails, \<open>textToImageWithAI\<close> is claimed to pass the failure on to its caller. The
  inner handler does rethrow, but the outer handler of the same function catches the
  error and returns the mock analysis object: the caller gets a value, not a failure.
\<close>

theorem textToImageWithAI_swallows_gateway_error:
  "tokenConfigured offlineEnv
   \<and> imageGateway offlineEnv ''a tiger doing a handstand'' = Inl GatewayError
   \<and> textToImageWithAI offlineEnv ''a tiger doing a handstand''
       = Inr (MockObject getMockAnalysisResults)"
  by (simp add: textToImageWithAI_def tryCatch_def tokenConfigured_def offlineEnv_def
      scriptedEnv_def)

subsection \<open>Caption formatting\<close>

text \<open>
  C6, as stated. \<open>formatCaption("", "a dog", ["animal","grass"])\<close> is claimed to be
  \<open>"a dog, The image contains: animal, grass."\<close>. With the labels joined by \<open>", "\<close> as
  at the call site, the function puts a space, not a comma, after the basic caption.
\<close>

theorem formatCaption_space_not_comma:
  "formatCaption exampleGt (JStr '''') ''a dog'' (joinLabels [''animal'', ''grass''])
     = Inr ''a dog The image contains: animal, grass.''
   \<and> formatCaption exampleGt (JStr '''') ''a dog'' (joinLabels [''animal'', ''grass''])
     \<noteq> Inr ''a dog, The image contains: animal, grass.''"
  by (simp add: formatCaption_def withClassifications_def)

text \<open>
  C6, amended. When the detailed text is empty and the joined labels are not, the
  result is the basic caption, then \<open>" The image contains: "\<close>, the joined labels and a
  final period.
\<close>

theorem formatCaption_empty_detail:
  assumes "joined \<noteq> []"
  shows "formatCaption gt (JStr []) basicCaption joined =
           Inr (basicCaption @ '' The image contains: '' @ joined @ ''.'')"
  using assms by (simp add: formatCaption_def withClassifications_def)

theorem formatCaption_empty_detail_witness:
  "joinLabels [''animal'', ''grass''] \<noteq> []
   \<and> formatCaption exampleGt (JStr []) ''a dog'' (joinLabels [''animal'', ''grass'']) =
       Inr (''a dog'' @ '' The image contains: '' @ joinLabels [''animal'', ''grass''] @ ''.'')"
proof -
  have h: "joinLabels [''animal'', ''grass''] \<noteq> []" by simp
  from formatCaption_empty_detail [OF h, of exampleGt "''a dog''"] h show ?thesis by blast
qed

subsection \<open>Normalising responses\<close>

lemma labelOf_spec: "entry \<noteq> JNull \<Longrightarrow> labelOf entry = Inr (spec_entryLabel entry)"
  by (cases entry)
    (auto simp: spec_entryLabel_def spec_presentField_def orElse_def split: option.splits)

lemma mapLabels_spec:
  "JNull \<notin> set xs \<Longrightarrow> mapLabels xs = Inr (map spec_entryLabel xs)"
  by (induction xs) (auto simp: labelOf_spec)

lemma filterStrings_spec: "filterStrings (map spec_entryLabel xs) = spec_survivors xs"
proof (induction xs)
  case Nil
  then show ?case by (simp add: spec_survivors_def)
next
  case (Cons x xs)
  then show ?case by (cases "spec_entryLabel x") (simp_all add: spec_survivors_def)
qed

lemma length_spec_survivors: "length (spec_survivors xs) \<le> length xs"
proof (induction xs)
  case Nil
  then show ?case by (simp add: spec_survivors_def)
next
  case (Cons x xs)
  then show ?case by (cases "spec_entryLabel x") (simp_all add: spec_survivors_def)
qed

text \<open>
  C7, as stated. The labels are claimed to be the first three that survive the
  filter. The service takes the first three entries and filters afterwards: when one
  of them has no string label, fewer than three labels come back although later
  entries have one.
\<close>

theorem classification_slices_before_filtering:
  "normalizeLabels [JObj [(''score'', JNum (9 / 10))], JStr ''a'', JStr ''b'', JStr ''c'']
     = Inr [''a'', ''b'']
   \<and> spec_firstThreeSurvivors
       [JObj [(''score'', JNum (9 / 10))], JStr ''a'', JStr ''b'', JStr ''c'']
     = [''a'', ''b'', ''c'']"
  by (simp add: normalizeLabels_def orElse_def spec_firstThreeSurvivors_def spec_survivors_def
      spec_entryLabel_def spec_presentField_def)

text \<open>
  C7, amended. For a classification response whose first three entries are not
  \<open>null\<close>, the labels are those of the first three entries only: for each, the
  \<open>label\<close> field, else the \<open>generated_text\<close> field, else the entry itself, kept when
  it is a string, in the original order. There are at most three.
\<close>

theorem normalizeLabels_first_three_entries:
  assumes "JNull \<notin> set (take 3 entries)"
  shows "normalizeLabels entries = Inr (spec_survivors (take 3 entries))
         \<and> length (spec_survivors (take 3 entries)) \<le> 3"
proof
  show "normalizeLabels entries = Inr (spec_survivors (take 3 entries))"
    using assms by (simp add: normalizeLabels_def mapLabels_spec filterStrings_spec)
  have "length (spec_survivors (take 3 entries)) \<le> length (take 3 entries)"
    by (rule length_spec_survivors)
  then show "length (spec_survivors (take 3 entries)) \<le> 3" by simp
qed

theorem normalizeLabels_first_three_entries_witness:
  "JNull \<notin> set (take 3 [JObj [(''label'', JStr ''cat''), (''score'', JNum (9 / 10))],
                          JObj [(''generated_text'', JStr ''dog'')],
                          JStr ''bird'', JStr ''fish''])
   \<and> normalizeLabels [JObj [(''label'', JStr ''cat''), (''score'', JNum (9 / 10))],
                      JObj [(''generated_text'', JStr ''dog'')],
                      JStr ''bird'', JStr ''fish'']
       = Inr [''cat'', ''dog'', ''bird'']"
proof -
  let ?xs = "[JObj [(''label'', JStr ''cat''), (''score'', JNum (9 / 10))],
              JObj [(''generated_text'', JStr ''dog'')], JStr ''bird'', JStr ''fish'']"
  have h: "JNull \<notin> set (take 3 ?xs)" by simp
  have v: "spec_survivors (take 3 ?xs) = [''cat'', ''dog'', ''bird'']"
    by (simp add: spec_survivors_def spec_entryLabel_def spec_presentField_def)
  from normalizeLabels_first_three_entries [OF h] h v show ?thesis by simp
qed

text \<open>
  C8, as stated. The three caption shapes carrying a text \<open>t\<close> are claimed to
  normalise to \<open>t\<close> for every \<open>t\<close>. The shape test asks for a true value, and the empty
  string is not one: none of the three shapes is accepted when \<open>t\<close> is empty.
\<close>

theorem empty_text_is_unusable:
  "extractText (JArr [JObj [(''generated_text'', JStr '''')]]) = None
   \<and> extractText (JObj [(''generated_text'', JStr '''')]) = None
   \<and> extractText (JStr '''') = None"
  by (simp add: firstGeneratedText_def truthyField_def)

text \<open>
  C8, amended. For every text \<open>t\<close> that is not empty, a sequence whose first element is
  an object with \<open>generated_text = t\<close>, a single object with \<open>generated_text = t\<close>, and
  the bare string \<open>t\<close> all normalise to \<open>t\<close>.
\<close>

theorem caption_shapes_agree:
  assumes "t \<noteq> []"
    and "map_of fs ''generated_text'' = Some (JStr t)"
    and "map_of gs ''generated_text'' = Some (JStr t)"
  shows "extractText (JArr (JObj fs # rest)) = Some (JStr t)
         \<and> extractText (JObj gs) = Some (JStr t)
         \<and> extractText (JStr t) = Some (JStr t)"
  using assms by (simp add: firstGeneratedText_def truthyField_def)

theorem caption_shapes_agree_witness:
  "''a dog'' \<noteq> []
   \<and> extractText (JArr [JObj [(''generated_text'', JStr ''a dog'')], JStr ''more'']) = Some (JStr ''a dog'')
   \<and> extractText (JObj [(''score'', JNum 1), (''generated_text'', JStr ''a dog'')]) = Some (JStr ''a dog'')
   \<and> extractText (JStr ''a dog'') = Some (JStr ''a dog'')"
proof -
  have a: "''a dog'' \<noteq> []" by simp
  have b: "map_of [(''generated_text'', JStr ''a dog'')] ''generated_text'' = Some (JStr ''a dog'')"
    by simp
  have c: "map_of [(''score'', JNum 1), (''generated_text'', JStr ''a dog'')] ''generated_text''
             = Some (JStr ''a dog'')"
    by simp
  from caption_shapes_agree [OF a b c, of "[JStr ''more'']"] a show ?thesis by blast
qed

subsection \<open>Alt text of long captions\<close>

lemma length_capitalise: "s \<noteq> [] \<Longrightarrow> length s < length (capitalise s)"
  using toUpperCase_single [of s]
  by (cases s) (auto simp: capitalise_def units_def)

lemma capitalise_starts:
  "take (length (toUpperCase (charAt0 s))) (capitalise s) = toUpperCase (charAt0 s)"
  by (simp add: capitalise_def)

lemma charAt0_stripPeriod: "1 < length s \<Longrightarrow> charAt0 (stripPeriod s) = charAt0 s"
  by (cases s rule: rev_cases)
    (auto simp: stripPeriod_def endsWithPeriod_def charAt0_def Suc_le_eq)

lemma formatAltText_long:
  assumes "length (stripPeriod (trim text)) > 125"
  shows "formatAltText text = take 122 (capitalise (stripPeriod (trim text))) @ units ''...''"
proof -
  from assms have "stripPeriod (trim text) \<noteq> []" by auto
  then have "length (capitalise (stripPeriod (trim text))) > 125"
    using assms length_capitalise [of "stripPeriod (trim text)"] by simp
  then show ?thesis by (simp add: formatAltText_def limitLength_def)
qed

text \<open>
  C9, as stated. Every input of 200 characters is claimed to give 125 characters that
  end in an ellipsis and start with the first 122 characters of the input. An input
  of 200 spaces is trimmed to nothing and gives a single space. An input of 200
  letters \<open>a\<close> gives 125 characters, but they start with the capitalised first letter,
  not with the input's own first 122 characters.
\<close>

theorem formatAltText_200_counterexamples:
  "length (replicate 200 (CHR '' '')) = 200
   \<and> formatAltText (replicate 200 (CHR '' '')) = units '' ''
   \<and> length (replicate 200 (CHR ''a'')) = 200
   \<and> take 122 (formatAltText (replicate 200 (CHR ''a'')))
       \<noteq> units (take 122 (replicate 200 (CHR ''a'')))"
  by code_simp

text \<open>
  C9, amended. For every input of 200 characters that, once trimmed and without one
  final period, still has more than 125 characters, \<open>formatAltText\<close> returns exactly
  125 code units that end in \<open>"..."\<close> and begin with the upper-cased form of the first
  character of the trimmed input (one code unit, or two as for the sharp s).
\<close>

theorem formatAltText_truncates:
  assumes "length text = 200" and "length (stripPeriod (trim text)) > 125"
  shows "length (formatAltText text) = 125
         \<and> drop 122 (formatAltText text) = units ''...''
         \<and> take (length (toUpperCase (charAt0 (trim text)))) (formatAltText text)
             = toUpperCase (charAt0 (trim text))"
proof -
  let ?u = "stripPeriod (trim text)"
  let ?up = "toUpperCase (charAt0 ?u)"
  have f: "formatAltText text = take 122 (capitalise ?u) @ units ''...''"
    using assms(2) by (rule formatAltText_long)
  have ne: "?u \<noteq> []" using assms(2) by auto
  have len: "length (capitalise ?u) > 125"
    using assms(2) length_capitalise [OF ne] by simp
  have l122: "length (take 122 (capitalise ?u)) = 122" using len by simp
  have a: "length (formatAltText text) = 125" using f l122 by (simp add: units_def)
  have b: "drop 122 (formatAltText text) = units ''...''" using f l122 by simp
  have "1 < length (trim text)"
    using assms(2) by (auto simp: stripPeriod_def split: if_splits)
  then have c0: "charAt0 ?u = charAt0 (trim text)" by (rule charAt0_stripPeriod)
  have short: "length ?up \<le> 122" using toUpperCase_single [OF ne] by simp
  have "take (length ?up) (formatAltText text) = take (length ?up) (take 122 (capitalise ?u))"
    using f l122 short by simp
  also have "\<dots> = take (length ?up) (capitalise ?u)" using short by (simp add: min_def)
  also have "\<dots> = ?up" by (rule capitalise_starts)
  finally have "take (length ?up) (formatAltText text) = ?up" .
  then have c: "take (length (toUpperCase (charAt0 (trim text)))) (formatAltText text)
             = toUpperCase (charAt0 (trim text))"
    by (simp add: c0)
  from a b c show ?thesis by blast
qed

theorem formatAltText_truncates_witness:
  "length (CHR 0xDF # replicate 199 (CHR ''a'')) = 200
   \<and> length (stripPeriod (trim (CHR 0xDF # replicate 199 (CHR ''a'')))) > 125
   \<and> length (formatAltText (CHR 0xDF # replicate 199 (CHR ''a''))) = 125
   \<and> drop 122 (formatAltText (CHR 0xDF # replicate 199 (CHR ''a''))) = units ''...''
   \<and> take 2 (formatAltText (CHR 0xDF # replicate 199 (CHR ''a''))) = units ''SS''"
proof -
  let ?text = "CHR 0xDF # replicate 199 (CHR ''a'')"
  have h1: "length ?text = 200" by simp
  have h2: "length (stripPeriod (trim ?text)) > 125" by code_simp
  have u: "toUpperCase (charAt0 (trim ?text)) = units ''SS''" by code_simp
  have l: "length (units ''SS'') = 2" by (simp add: units_def)
  from formatAltText_truncates [OF h1 h2] h1 h2 u l show ?thesis by simp
qed

subsection \<open>The result of an analysis\<close>

lemma extractText_truthy: "extractText d = Some v \<Longrightarrow> truthy v"
  by (cases d) (auto simp: truthyField_def split: if_splits option.splits)

lemma tryCaption_truthy:
  "captionSuccess (fst s) \<longrightarrow> truthy (captionText (fst s)) \<Longrightarrow>
   captionSuccess (fst (tryCaption gw m s)) \<longrightarrow> truthy (captionText (fst (tryCaption gw m s)))"
  by (auto simp: tryCaption_def Let_def extractText_truthy split: sum.splits option.splits)

lemma captionLoop_truthy:
  "captionSuccess (fst s) \<longrightarrow> truthy (captionText (fst s)) \<Longrightarrow>
   captionSuccess (fst (captionLoop gw ms s)) \<longrightarrow> truthy (captionText (fst (captionLoop gw ms s)))"
proof (induction ms arbitrary: s)
  case Nil
  then show ?case by simp
next
  case (Cons m ms)
  show ?case
  proof (cases "captionSuccess (fst s)")
    case True
    with Cons.prems show ?thesis by simp
  next
    case False
    from Cons.IH [OF tryCaption_truthy [OF Cons.prems]] False show ?thesis by simp
  qed
qed

lemma tryAnalysis_caption:
  "captionSuccess (fst (tryAnalysis gw m s)) = captionSuccess (fst s)
   \<and> captionText (fst (tryAnalysis gw m s)) = captionText (fst s)"
  by (auto simp: tryAnalysis_def Let_def split: sum.splits option.splits)

lemma analysisLoop_caption:
  "captionSuccess (fst (analysisLoop gw ms s)) = captionSuccess (fst s)
   \<and> captionText (fst (analysisLoop gw ms s)) = captionText (fst s)"
  by (induction ms arbitrary: s) (simp_all add: tryAnalysis_caption)

lemma tryClassification_caption:
  "captionSuccess (fst (tryClassification gw m s)) = captionSuccess (fst s)
   \<and> captionText (fst (tryClassification gw m s)) = captionText (fst s)"
  by (auto simp: tryClassification_def Let_def split: sum.splits json.splits)

lemma classificationLoop_caption:
  "captionSuccess (fst (classificationLoop gw ms s)) = captionSuccess (fst s)
   \<and> captionText (fst (classificationLoop gw ms s)) = captionText (fst s)"
  by (induction ms arbitrary: s) (simp_all add: tryClassification_caption)

lemma runCapabilities_caption_truthy:
  assumes "captionSuccess (fst (runCapabilities gw))"
  shows "truthy (captionText (fst (runCapabilities gw)))"
proof -
  let ?s1 = "captionLoop gw models_caption (initialResults, [])"
  have "captionSuccess (fst ?s1) \<longrightarrow> truthy (captionText (fst ?s1))"
    by (rule captionLoop_truthy) (simp add: initialResults_def)
  with assms show ?thesis
    by (auto simp: runCapabilities_def Let_def analysisLoop_caption classificationLoop_caption
        split: if_splits)
qed

lemma stripBoilerplate_empty:
  assumes "stripBoilerplate s = []"
  shows "s = [] \<or> s = ''Caption: '' \<or> s = ''Description: '' \<or> s = ''Image shows: ''"
proof -
  have split: "\<And>n. s = take n s @ drop n s" by simp
  show ?thesis
    using assms split [of 9] split [of 13]
    by (auto simp: stripBoilerplate_def split: if_splits)
qed

lemma formatAltText_nonempty: "formatAltText t \<noteq> []"
  by (simp add: formatAltText_def limitLength_def capitalise_def units_def)

lemma withClassifications_nonempty: "b \<noteq> [] \<Longrightarrow> withClassifications b c \<noteq> []"
  by (simp add: withClassifications_def)

lemma stripBoilerplate_prefix:
  "pre \<in> {''Caption: '', ''Description: '', ''Image shows: ''} \<Longrightarrow> stripBoilerplate pre = []"
  by (auto simp: stripBoilerplate_def)

lemma formatCaption_empty_iff:
  assumes "b \<noteq> []"
  shows "formatCaption gt d b c = Inr [] \<longleftrightarrow>
           (\<exists>pre. d = JStr pre \<and> pre \<in> {''Caption: '', ''Description: '', ''Image shows: ''}
                  \<and> length b < length pre)"
proof
  assume empty: "formatCaption gt d b c = Inr []"
  have t: "truthy d"
  proof (rule ccontr)
    assume "\<not> truthy d"
    with empty assms withClassifications_nonempty [OF assms, of c] show False
      by (simp add: formatCaption_def)
  qed
  from empty t obtain longer where le: "lengthExceeds gt d (length b) = Inr longer"
    by (cases "lengthExceeds gt d (length b)") (simp_all add: formatCaption_def)
  have longer
  proof (rule ccontr)
    assume "\<not> longer"
    with empty t le withClassifications_nonempty [OF assms, of c] show False
      by (simp add: formatCaption_def)
  qed
  with empty t le have rep: "replaceBoilerplate d = Inr []" by (simp add: formatCaption_def)
  then obtain s where d: "d = JStr s" and s: "stripBoilerplate s = []"
    by (cases d) auto
  from t d have "s \<noteq> []" by simp
  with stripBoilerplate_empty [OF s]
  have mem: "s \<in> {''Caption: '', ''Description: '', ''Image shows: ''}" by auto
  from le d \<open>longer\<close> have "length b < length s" by simp
  with d mem show "\<exists>pre. d = JStr pre \<and> pre \<in> {''Caption: '', ''Description: '', ''Image shows: ''}
                  \<and> length b < length pre"
    by blast
next
  assume "\<exists>pre. d = JStr pre \<and> pre \<in> {''Caption: '', ''Description: '', ''Image shows: ''}
                  \<and> length b < length pre"
  then obtain pre where d: "d = JStr pre"
    and mem: "pre \<in> {''Caption: '', ''Description: '', ''Image shows: ''}"
    and len: "length b < length pre"
    by blast
  from mem have "pre \<noteq> []" by auto
  with d len stripBoilerplate_prefix [OF mem] show "formatCaption gt d b c = Inr []"
    by (simp add: formatCaption_def)
qed

lemma buildResult_fields:
  assumes "truthy (captionText r)" and "buildResult gt r = Inr x"
  shows "altText x \<noteq> []
         \<and> (caption x = [] \<longleftrightarrow>
              analysisSuccess r
              \<and> (\<exists>t pre. captionText r = JStr t \<and> analysisText r = JStr pre
                    \<and> pre \<in> {''Caption: '', ''Description: '', ''Image shows: ''}
                    \<and> length t < length pre))"
proof -
  from assms(2) obtain t where t: "captionText r = JStr t"
    by (cases "captionText r") (simp_all add: buildResult_def)
  with assms(1) have ne: "t \<noteq> []" by simp
  have alt: "altText x \<noteq> []"
    using assms(2) t by (auto simp: buildResult_def formatAltText_nonempty split: if_splits sum.splits)
  show ?thesis
  proof (cases "analysisSuccess r \<and> truthy (analysisText r)")
    case True
    with assms(2) t have
      fc: "formatCaption gt (analysisText r) t (joinLabels (classifications r)) = Inr (caption x)"
      by (auto simp: buildResult_def split: sum.splits)
    from formatCaption_empty_iff [OF ne, of gt "analysisText r" "joinLabels (classifications r)"] fc
    have "caption x = [] \<longleftrightarrow>
            (\<exists>pre. analysisText r = JStr pre
                  \<and> pre \<in> {''Caption: '', ''Description: '', ''Image shows: ''}
                  \<and> length t < length pre)"
      by auto
    with True t alt show ?thesis by auto
  next
    case False
    with assms(2) t ne have "caption x \<noteq> []"
      by (auto simp: buildResult_def split: if_splits)
    moreover have "\<not> (analysisSuccess r
              \<and> (\<exists>t pre. captionText r = JStr t \<and> analysisText r = JStr pre
                    \<and> pre \<in> {''Caption: '', ''Description: '', ''Image shows: ''}
                    \<and> length t < length pre))"
      using False by auto
    ultimately show ?thesis using alt by blast
  qed
qed

lemma buildResult_defined:
  assumes "captionText r = JStr t" and "analysisSuccess r" and "analysisText r = JStr pre"
    and "pre \<in> {''Caption: '', ''Description: '', ''Image shows: ''}"
    and "length t < length pre"
  shows "\<exists>x. buildResult gt r = Inr x"
proof -
  from assms(4) have "pre \<noteq> []" by auto
  with assms stripBoilerplate_prefix [OF assms(4)] show ?thesis
    by (simp add: buildResult_def formatCaption_def)
qed

text \<open>
  C5, as stated. Every result of the analysis is claimed to have a non-empty alt text
  and a non-empty caption. When the caption model answers \<open>"a"\<close> and the analysis model
  answers \<open>"Caption: "\<close>, the analysis text is longer than the caption, its boilerplate
  prefix is removed, and the caption that is returned is the empty string.
\<close>

theorem detailed_prefix_gives_empty_caption:
  "caption (fst (analyzeImageWithAI prefixOnlyEnv ''cat.png'')) = []"
  by code_simp

text \<open>
  C5, amended. Every result of the analysis, the mock result included, has a non-empty
  alt text. Its caption is non-empty as well, with one exception: the caption is the
  empty string exactly when the run reaches the providers, the caption and analysis
  loops both succeed, and the analysis text is one of the bare prefixes \<open>"Caption: "\<close>,
  \<open>"Description: "\<close> and \<open>"Image shows: "\<close> and is longer than the caption text.
\<close>

theorem analysis_result_fields:
  "altText (fst (analyzeImageWithAI e imagePath)) \<noteq> []
   \<and> (caption (fst (analyzeImageWithAI e imagePath)) = [] \<longleftrightarrow>
        tokenConfigured e \<and> readFileSync e imagePath \<noteq> None
        \<and> captionSuccess (fst (runCapabilities (gateway e)))
        \<and> analysisSuccess (fst (runCapabilities (gateway e)))
        \<and> (\<exists>t pre. captionText (fst (runCapabilities (gateway e))) = JStr t
               \<and> analysisText (fst (runCapabilities (gateway e))) = JStr pre
               \<and> pre \<in> {''Caption: '', ''Description: '', ''Image shows: ''}
               \<and> length t < length pre))"
proof -
  let ?r = "fst (runCapabilities (gateway e))"
  let ?res = "fst (analyzeImageWithAI e imagePath)"
  let ?bare = "\<exists>t pre. captionText ?r = JStr t \<and> analysisText ?r = JStr pre
               \<and> pre \<in> {''Caption: '', ''Description: '', ''Image shows: ''}
               \<and> length t < length pre"
  have mock: "altText getMockAnalysisResults \<noteq> []" "caption getMockAnalysisResults \<noteq> []"
    by (simp_all add: getMockAnalysisResults_def units_def)
  show ?thesis
  proof (cases "tokenConfigured e \<and> readFileSync e imagePath \<noteq> None \<and> captionSuccess ?r")
    case False
    then have "?res = getMockAnalysisResults"
      by (auto simp: analyzeImageWithAI_def Let_def split: option.splits)
    with mock False show ?thesis by auto
  next
    case live: True
    then have tr: "truthy (captionText ?r)" by (simp add: runCapabilities_caption_truthy)
    show ?thesis
    proof (cases "buildResult (relationalGt e) ?r")
      case (Inl err)
      with live have m: "?res = getMockAnalysisResults"
        by (auto simp: analyzeImageWithAI_def Let_def split: option.splits)
      have "\<not> (analysisSuccess ?r \<and> ?bare)"
      proof
        assume "analysisSuccess ?r \<and> ?bare"
        then obtain t pre where "captionText ?r = JStr t" "analysisSuccess ?r"
          "analysisText ?r = JStr pre"
          "pre \<in> {''Caption: '', ''Description: '', ''Image shows: ''}" "length t < length pre"
          by blast
        from buildResult_defined [OF this, of "relationalGt e"] Inl show False by simp
      qed
      with m mock show ?thesis by auto
    next
      case (Inr x)
      with live have x: "?res = x"
        by (auto simp: analyzeImageWithAI_def Let_def split: option.splits)
      from buildResult_fields [OF tr Inr] x live show ?thesis by simp
    qed
  qed
qed

theorem analysis_result_fields_witness:
  "caption (fst (analyzeImageWithAI prefixOnlyEnv ''cat.png'')) = []
   \<and> altText (fst (analyzeImageWithAI prefixOnlyEnv ''cat.png'')) \<noteq> []
   \<and> tokenConfigured prefixOnlyEnv
   \<and> captionSuccess (fst (runCapabilities (gateway prefixOnlyEnv)))
   \<and> analysisSuccess (fst (runCapabilities (gateway prefixOnlyEnv)))
   \<and> captionText (fst (runCapabilities (gateway prefixOnlyEnv))) = JStr ''a''
   \<and> analysisText (fst (runCapabilities (gateway prefixOnlyEnv))) = JStr ''Caption: ''"
proof -
  have empty: "caption (fst (analyzeImageWithAI prefixOnlyEnv ''cat.png'')) = []"
    by code_simp
  have t: "captionText (fst (runCapabilities (gateway prefixOnlyEnv))) = JStr ''a''"
    by code_simp
  have a: "analysisText (fst (runCapabilities (gateway prefixOnlyEnv))) = JStr ''Caption: ''"
    by code_simp
  from analysis_result_fields [of prefixOnlyEnv "''cat.png''"] empty t a
  show ?thesis by blast
qed

text \<open>
  C10, as stated. Whenever the caption loop succeeds, the analysis loop fails and the
  classification loop succeeds, the caption is claimed to be the caption text, then
  \<open>". This image contains: "\<close>, the labels joined by \<open>", "\<close> and a period. The caption
  loop also succeeds on a value that is not a string; \<open>formatAltText\<close> then throws, and
  the mock result is returned.
\<close>

theorem numeric_caption_text_gives_mock:
  "captionSuccess (fst (runCapabilities (gateway numericCaptionEnv)))
   \<and> \<not> analysisSuccess (fst (runCapabilities (gateway numericCaptionEnv)))
   \<and> classificationSuccess (fst (runCapabilities (gateway numericCaptionEnv)))
   \<and> captionText (fst (runCapabilities (gateway numericCaptionEnv))) = JNum 5
   \<and> classifications (fst (runCapabilities (gateway numericCaptionEnv))) = [''animal'']
   \<and> fst (analyzeImageWithAI numericCaptionEnv ''cat.png'') = getMockAnalysisResults"
  by code_simp

text \<open>
  C10, amended. For every run of the analysis in which the caption loop succeeds with
  a string \<open>t\<close>, the analysis loop fails and the classification loop succeeds, the
  caption returned is \<open>t\<close>, then \<open>". This image contains: "\<close>, the labels joined by
  \<open>", "\<close>, and a final period.
\<close>

text \<open>
  C10, amended. For every run of the analysis in which the caption loop succeeds with
  a string \<open>t\<close>, the analysis loop fails and the classification loop succeeds, the
  caption returned is \<open>t\<close>, then \<open>". This image contains: "\<close>, the labels joined by
  \<open>", "\<close>, and a final period.
\<close>

theorem labels_only_caption_format:
  assumes "tokenConfigured e" and "readFileSync e imagePath = Some imageBuffer"
    and "captionSuccess (fst (runCapabilities (gateway e)))"
    and "\<not> analysisSuccess (fst (runCapabilities (gateway e)))"
    and "classificationSuccess (fst (runCapabilities (gateway e)))"
    and "captionText (fst (runCapabilities (gateway e))) = JStr t"
  shows "caption (fst (analyzeImageWithAI e imagePath)) =
           t @ ''. This image contains: ''
             @ joinLabels (classifications (fst (runCapabilities (gateway e)))) @ ''.''"
  using assms by (simp add: analyzeImageWithAI_def Let_def buildResult_def)

theorem labels_only_caption_format_witness:
  "tokenConfigured labelsOnlyEnv
   \<and> readFileSync labelsOnlyEnv ''cat.png'' = Some ''image bytes''
   \<and> captionSuccess (fst (runCapabilities (gateway labelsOnlyEnv)))
   \<and> \<not> analysisSuccess (fst (runCapabilities (gateway labelsOnlyEnv)))
   \<and> classificationSuccess (fst (runCapabilities (gateway labelsOnlyEnv)))
   \<and> captionText (fst (runCapabilities (gateway labelsOnlyEnv))) = JStr ''a dog''
   \<and> caption (fst (analyzeImageWithAI labelsOnlyEnv ''cat.png'')) =
       ''a dog. This image contains: animal, grass.''"
proof -
  have h1: "tokenConfigured labelsOnlyEnv" by code_simp
  have h2: "readFileSync labelsOnlyEnv ''cat.png'' = Some ''image bytes''" by code_simp
  have h3: "captionSuccess (fst (runCapabilities (gateway labelsOnlyEnv)))" by code_simp
  have h4: "\<not> analysisSuccess (fst (runCapabilities (gateway labelsOnlyEnv)))" by code_simp
  have h5: "classificationSuccess (fst (runCapabilities (gateway labelsOnlyEnv)))" by code_simp
  have h6: "captionText (fst (runCapabilities (gateway labelsOnlyEnv))) = JStr ''a dog''"
    by code_simp
  have ls: "classifications (fst (runCapabilities (gateway labelsOnlyEnv))) = [''animal'', ''grass'']"
    by code_simp
  from labels_only_caption_format [OF h1 h2 h3 h4 h5 h6] ls h1 h2 h3 h4 h5 h6
  show ?thesis by simp
qed

end
